theory Spec2Isabelle
  imports Main "HOL-Library.Word"
begin

section \<open>Field elements\<close>

text \<open>
  Every circuit signal is an element of the scalar field of the proof system: a natural
  number below the prime \<open>p\<close>, with arithmetic reduced modulo \<open>p\<close>. The circuits name no
  prime (\<open>pragma circom 2.0.0\<close> and nothing else), so \<open>p\<close> is the compiler's default, the
  order of the BN254 scalar field. The signal operators \<open>+\<close>, \<open>-\<close>, \<open>*\<close> and \<open>/\<close> of the
  circuit language are \<open>fadd\<close>, \<open>fsub\<close>, \<open>fmul\<close> and \<open>fdiv\<close>; \<open>/\<close> multiplies by the
  inverse modulo \<open>p\<close>, computed by the extended Euclidean algorithm (\<open>inv_loop\<close> keeps
  the remainders \<open>r0\<close>, \<open>r1\<close> and the coefficients \<open>t0\<close>, \<open>t1\<close> of the divisor). The
  divisor \<open>0\<close> has no inverse and the loop returns \<open>0\<close> for it.
\<close>

type_synonym felt = nat

definition p :: nat where
  "p = 21888242871839275222246405745257275088548364400416034343698204186575808495617"

definition fadd :: "felt \<Rightarrow> felt \<Rightarrow> felt" where
  "fadd a b = (a + b) mod p"

definition fsub :: "felt \<Rightarrow> felt \<Rightarrow> felt" where
  "fsub a b = (a + (p - b mod p)) mod p"

definition fmul :: "felt \<Rightarrow> felt \<Rightarrow> felt" where
  "fmul a b = (a * b) mod p"

function inv_loop :: "nat \<Rightarrow> nat \<Rightarrow> felt \<Rightarrow> felt \<Rightarrow> felt" where
  "inv_loop r0 r1 t0 t1 =
     (if r1 = 0 then t0
      else inv_loop r1 (r0 mod r1) t1 (fsub t0 (fmul (r0 div r1) t1)))"
  by pat_completeness auto
termination
  by (relation "measure (\<lambda>(r0, r1, t0, t1). r1)") auto

declare inv_loop.simps [simp del]

definition finv :: "felt \<Rightarrow> felt" where
  "finv b = inv_loop p (b mod p) 0 1"

definition fdiv :: "felt \<Rightarrow> felt \<Rightarrow> felt" where
  "fdiv a b = fmul a (finv b)"

section \<open>Comparator gadgets\<close>

text \<open>
  Modelled from the spec: the templates of the included library file
  \<open>comparators.circom\<close> (\<open>GreaterEqThan\<close>, \<open>LessEqThan\<close>, \<open>LessThan\<close>, \<open>IsZero\<close>) are
  not part of the repository. The specification gives each gadget a boolean-valued
  field output, \<open>out = 1\<close> exactly when the comparison holds and \<open>0\<close> otherwise. The
  template parameter is the bit width the circuits pass (always 252).
\<close>

definition GreaterEqThan :: "nat \<Rightarrow> felt \<Rightarrow> felt \<Rightarrow> felt" where
  "GreaterEqThan n a b = (if b \<le> a then 1 else 0)"

definition LessEqThan :: "nat \<Rightarrow> felt \<Rightarrow> felt \<Rightarrow> felt" where
  "LessEqThan n a b = (if a \<le> b then 1 else 0)"

definition LessThan :: "nat \<Rightarrow> felt \<Rightarrow> felt \<Rightarrow> felt" where
  "LessThan n a b = (if a < b then 1 else 0)"

definition IsZero :: "felt \<Rightarrow> felt" where
  "IsZero a = (if a = 0 then 1 else 0)"

section \<open>Witness computation\<close>

text \<open>
  A template is a function from its input signals to its output signals. An assignment
  \<open>s <== e\<close> gives \<open>s\<close> the value of \<open>e\<close>; a constraint \<open>a === b\<close> that does not hold
  ends the computation with \<open>ConstraintFailed\<close>: no witness exists for these inputs.
  The input signals are field elements, natural numbers below \<open>p\<close>. An input array
  whose length is not the one the template declares is refused with
  \<open>InputSizeMismatch\<close>, and reading a signal that nothing assigns or constrains gives
  \<open>UnassignedSignal\<close>. The templates are read as they are written, statement by
  statement: a signal that is assigned again (\<open>currentHash\<close>, \<open>allValid\<close>) holds the
  value of the latest assignment.
\<close>

datatype circuit_error =
  ConstraintFailed | InputSizeMismatch | UnassignedSignal | NonQuadraticConstraint

text \<open>
  An assignment \<open>s <== e\<close> is also the constraint \<open>s === e\<close>, and the circuit language
  admits a constraint only when \<open>e\<close> is at most quadratic in the signals. The shape of
  an expression says how it depends on the signals: a number is \<open>Constant\<close>, a signal
  is \<open>Linear\<close>, a product of two linear expressions is \<open>Quadratic\<close>; a product of
  higher degree, and every quotient by an expression that is not a number, is
  \<open>NonQuadratic\<close>. A template with an assignment \<open>s <== e\<close> of that shape is refused
  (\<open>NonQuadraticConstraint\<close>) and has no witness for any input. The refusal does not
  depend on the values of the signals; the model raises it at the statement, so that an
  input which breaks an earlier constraint is reported by that constraint. Either way
  the input has no witness. The check is written out at the assignments of the
  arithmetic templates whose right-hand side is refused; the other right-hand sides
  there are numbers, linear, or products of two signals.
\<close>

datatype shape = Constant | Linear | Quadratic | NonQuadratic

fun shape_mul :: "shape \<Rightarrow> shape \<Rightarrow> shape" where
  "shape_mul Constant sh = sh"
| "shape_mul sh Constant = sh"
| "shape_mul Linear Linear = Quadratic"
| "shape_mul sh1 sh2 = NonQuadratic"

fun shape_div :: "shape \<Rightarrow> shape \<Rightarrow> shape" where
  "shape_div sh Constant = sh"
| "shape_div sh1 sh2 = NonQuadratic"

definition constrainedAssign :: "shape \<Rightarrow> felt \<Rightarrow> circuit_error + felt" where
  "constrainedAssign sh v = (if sh = NonQuadratic then Inl NonQuadraticConstraint else Inr v)"

subsection \<open>IncomeVerifier\<close>

record income_inputs =
  minIncome :: felt
  maxIncome :: felt
  actualIncome :: felt

text \<open>The template's only output signal is \<open>commitment\<close>.\<close>

definition IncomeVerifier :: "income_inputs \<Rightarrow> circuit_error + felt" where
  "IncomeVerifier i =
     (if GreaterEqThan 252 (actualIncome i) (minIncome i) \<noteq> 1 then Inl ConstraintFailed
      else if LessEqThan 252 (actualIncome i) (maxIncome i) \<noteq> 1 then Inl ConstraintFailed
      else let commitment = actualIncome i in
        if LessEqThan 252 (minIncome i) (maxIncome i) \<noteq> 1 then Inl ConstraintFailed
        else if GreaterEqThan 252 (actualIncome i) 0 \<noteq> 1 then Inl ConstraintFailed
        else if GreaterEqThan 252 (minIncome i) 0 \<noteq> 1 then Inl ConstraintFailed
        else if GreaterEqThan 252 (maxIncome i) 0 \<noteq> 1 then Inl ConstraintFailed
        else Inr commitment)"

text \<open>
  The public signal vector of \<open>component main {public [minIncome, maxIncome]}\<close>: the two
  public inputs and the output, in the order the specification lists them.
\<close>

definition incomePublicSignals :: "income_inputs \<Rightarrow> circuit_error + felt list" where
  "incomePublicSignals i =
     (case IncomeVerifier i of
        Inl e \<Rightarrow> Inl e
      | Inr commitment \<Rightarrow> Inr [minIncome i, maxIncome i, commitment])"

subsection \<open>CreditHistoryVerifier\<close>

text \<open>
  The template \<open>MultiDivision\<close>: \<open>scaledDividend <== dividend * ratio\<close> is the product of
  two signals; \<open>remainder <== scaledDividend / divisor\<close> is a quotient of two signals.
\<close>

definition MultiDivision :: "felt \<Rightarrow> felt \<Rightarrow> felt \<Rightarrow> circuit_error + felt" where
  "MultiDivision dividend divisor ratio =
     (case constrainedAssign (shape_mul Linear Linear) (fmul dividend ratio) of
        Inl e \<Rightarrow> Inl e
      | Inr scaledDividend \<Rightarrow>
          constrainedAssign (shape_div Linear Linear) (fdiv scaledDividend divisor))"

record credit_inputs =
  creditScoreMin :: felt
  creditScoreMax :: felt
  minHistoryLength :: felt
  creditScore :: felt
  historyLength :: felt
  defaultCount :: felt
  recentLatePayments :: felt

record credit_outputs =
  creditRating :: felt
  isEligible :: felt

definition CreditHistoryVerifier :: "credit_inputs \<Rightarrow> circuit_error + credit_outputs" where
  "CreditHistoryVerifier i =
     (if GreaterEqThan 252 (creditScore i) (creditScoreMin i) \<noteq> 1 then Inl ConstraintFailed
      else if LessEqThan 252 (creditScore i) (creditScoreMax i) \<noteq> 1 then Inl ConstraintFailed
      else if GreaterEqThan 252 (historyLength i) (minHistoryLength i) \<noteq> 1
        then Inl ConstraintFailed
      else if IsZero (defaultCount i) \<noteq> 1 then Inl ConstraintFailed
      else if LessEqThan 252 (recentLatePayments i) 3 \<noteq> 1 then Inl ConstraintFailed
      else let isEligible = 1 in
        (case MultiDivision (creditScore i) 850 100 of
           Inl e \<Rightarrow> Inl e
         | Inr remainder \<Rightarrow>
             (let creditRating = remainder in
              if GreaterEqThan 252 (creditScore i) 0 \<noteq> 1 then Inl ConstraintFailed
              else if GreaterEqThan 252 (historyLength i) 0 \<noteq> 1 then Inl ConstraintFailed
              else if LessEqThan 252 (creditScore i) 850 \<noteq> 1 then Inl ConstraintFailed
              else Inr \<lparr>creditRating = creditRating, isEligible = isEligible\<rparr>)))"

subsection \<open>MerkleTreeVerifier\<close>

text \<open>
  The hash \<open>Poseidon(2)\<close> comes from an included library file that is not part of the
  repository: it is the parameter \<open>poseidon\<close> of every definition that hashes.
\<close>

text \<open>
  The template \<open>IsBinary\<close>: \<open>out <== in * (1 - in)\<close>, then \<open>out === 0\<close>.
\<close>

definition IsBinary :: "felt \<Rightarrow> circuit_error + felt" where
  "IsBinary x =
     (let out = fmul x (fsub 1 x) in
      if out \<noteq> 0 then Inl ConstraintFailed else Inr out)"

text \<open>The template \<open>IsEqual\<close>: \<open>out <== in[0] == in[1]\<close>.\<close>

definition IsEqual :: "felt \<Rightarrow> felt \<Rightarrow> felt" where
  "IsEqual in0 in1 = (if in0 = in1 then 1 else 0)"

text \<open>
  The first loop, over the levels from the leaf to the root: \<open>currentHash\<close> is replaced
  by the hash of the two children, ordered by the path index of the level.
\<close>

fun hashPath :: "(felt \<Rightarrow> felt \<Rightarrow> felt) \<Rightarrow> felt \<Rightarrow> felt list \<Rightarrow> felt list \<Rightarrow> felt" where
  "hashPath poseidon currentHash (pathIndex # pathIndices) (pathElement # pathElements) =
     (let leftChild = (if pathIndex = 0 then currentHash else pathElement);
          rightChild = (if pathIndex = 0 then pathElement else currentHash)
      in hashPath poseidon (poseidon leftChild rightChild) pathIndices pathElements)"
| "hashPath poseidon currentHash _ _ = currentHash"

text \<open>
  The second loop: each path index goes through \<open>IsBinary\<close>, and the output of the
  check is constrained to equal \<open>isValid\<close> (\<open>binaryCheck.out === isValid\<close>).
\<close>

fun binaryChecks :: "felt \<Rightarrow> felt list \<Rightarrow> circuit_error + unit" where
  "binaryChecks isValid [] = Inr ()"
| "binaryChecks isValid (pathIndex # pathIndices) =
     (case IsBinary pathIndex of
        Inl e \<Rightarrow> Inl e
      | Inr out \<Rightarrow>
          if out \<noteq> isValid then Inl ConstraintFailed
          else binaryChecks isValid pathIndices)"

text \<open>The output signal is \<open>isValid\<close>.\<close>

definition MerkleTreeVerifier ::
  "(felt \<Rightarrow> felt \<Rightarrow> felt) \<Rightarrow> nat \<Rightarrow> felt \<Rightarrow> felt list \<Rightarrow> felt \<Rightarrow> felt list
     \<Rightarrow> circuit_error + felt" where
  "MerkleTreeVerifier poseidon levels root pathIndices leafHash pathElements =
     (if length pathIndices = levels \<and> length pathElements = levels then
        (let currentHash = hashPath poseidon leafHash pathIndices pathElements;
             isValid = (if currentHash = root then 1 else 0)
         in if IsEqual currentHash root \<noteq> isValid then Inl ConstraintFailed
            else case binaryChecks isValid pathIndices of
                   Inl e \<Rightarrow> Inl e
                 | Inr u \<Rightarrow> Inr isValid)
      else Inl InputSizeMismatch)"

subsection \<open>BatchMerkleVerifier\<close>

text \<open>
  The first loop runs one \<open>MerkleTreeVerifier(levels)\<close> per proof and collects
  \<open>validityFlags\<close>; a sub-verifier whose constraints fail leaves the batch without a
  witness.
\<close>

fun validityFlagsOf ::
  "(felt \<Rightarrow> felt \<Rightarrow> felt) \<Rightarrow> nat \<Rightarrow> felt list \<Rightarrow> felt list \<Rightarrow> felt list list
     \<Rightarrow> felt list list \<Rightarrow> circuit_error + felt list" where
  "validityFlagsOf poseidon levels (r # batchRoots) (l # batchLeaves) (ps # batchPaths)
       (ix # batchIndices) =
     (case MerkleTreeVerifier poseidon levels r ix l ps of
        Inl e \<Rightarrow> Inl e
      | Inr isValid \<Rightarrow>
          (case validityFlagsOf poseidon levels batchRoots batchLeaves batchPaths
                  batchIndices of
             Inl e \<Rightarrow> Inl e
           | Inr flags \<Rightarrow> Inr (isValid # flags)))"
| "validityFlagsOf poseidon levels _ _ _ _ = Inr []"

text \<open>
  \<open>allValid\<close> starts at 1 and is multiplied by every flag; the loop after it multiplies
  it again by every flag but the first and feeds the first flag to \<open>allValidCheck\<close>,
  whose other input is 1 and whose output is constrained to equal \<open>allValid\<close>. With an
  empty batch nothing is assigned to \<open>allValidCheck.in[0]\<close>.
\<close>

definition BatchMerkleVerifier ::
  "(felt \<Rightarrow> felt \<Rightarrow> felt) \<Rightarrow> nat \<Rightarrow> nat \<Rightarrow> felt list \<Rightarrow> felt list \<Rightarrow> felt list list
     \<Rightarrow> felt list list \<Rightarrow> circuit_error + felt" where
  "BatchMerkleVerifier poseidon batchSize levels batchRoots batchLeaves batchPaths
       batchIndices =
     (if length batchRoots = batchSize \<and> length batchLeaves = batchSize
         \<and> length batchPaths = batchSize \<and> length batchIndices = batchSize then
        (case validityFlagsOf poseidon levels batchRoots batchLeaves batchPaths
                batchIndices of
           Inl e \<Rightarrow> Inl e
         | Inr validityFlags \<Rightarrow>
             (case validityFlags of
                [] \<Rightarrow> Inl UnassignedSignal
              | flag0 # others \<Rightarrow>
                  (let allValid = foldl fmul (foldl fmul 1 validityFlags) others
                   in if IsEqual flag0 1 \<noteq> allValid then Inl ConstraintFailed
                      else Inr allValid)))
      else Inl InputSizeMismatch)"

subsection \<open>CollateralVerifier\<close>




record collateral_inputs =
  requiredCollateralValue :: felt
  collateralRatio :: felt
  minCollateralAge :: felt
  actualCollateralValue :: felt
  collateralAge :: felt
  loanAmount :: felt
  hasLiens :: felt
  ownershipVerified :: felt
  assetHash :: felt
  assetType :: felt
  geographicRisk :: felt
  marketVolatility :: felt




section \<open>The verifier contracts\<close>

text \<open>
  Solidity values: \<open>uint256\<close> and \<open>bytes32\<close> are 256-bit words, \<open>address\<close> is a 160-bit
  word, \<open>bytes\<close> is a list of bytes. Arithmetic is checked (compiler 0.8): an overflow
  or underflow ends the call with \<open>Panic 17\<close> (code 0x11); a failed \<open>require\<close> ends it
  with \<open>Revert\<close> and the message. A call that ends in an error changes nothing, so a
  function returns either the error or its return value with the new storage. A mapping
  is a total function whose entries start out all zero. Events are left out: they touch
  neither storage nor return values.
\<close>

type_synonym uint8 = "8 word"
type_synonym uint256 = "256 word"
type_synonym bytes32 = "256 word"
type_synonym address = "160 word"
type_synonym bytes = "8 word list"

datatype evm_error = Revert string | Panic nat

definition require :: "bool \<Rightarrow> string \<Rightarrow> (evm_error + 'a) \<Rightarrow> evm_error + 'a" where
  "require cond message rest = (if cond then rest else Inl (Revert message))"

text \<open>What a call reads of its transaction: \<open>msg.sender\<close>, \<open>block.timestamp\<close>, \<open>gasleft()\<close>.\<close>

record env =
  msgSender :: address
  blockTimestamp :: uint256
  gasLeft :: uint256

subsection \<open>Packed encoding\<close>

text \<open>
  \<open>abi.encodePacked\<close> concatenates its arguments: \<open>bytes\<close> and \<open>string\<close> as they are, a
  \<open>uint256\<close> as 32 bytes and an \<open>address\<close> as 20 bytes, big-endian, and every element of
  a \<open>uint256[]\<close> as 32 bytes. The hash \<open>keccak256\<close> is a primitive of the machine: it is
  the parameter \<open>keccak256\<close> of every definition that hashes.
\<close>

fun be_bytes :: "nat \<Rightarrow> nat \<Rightarrow> bytes" where
  "be_bytes n v = (if n = 0 then [] else be_bytes (n - 1) (v div 256) @ [of_nat (v mod 256)])"

declare be_bytes.simps [simp del]

definition packUint256 :: "uint256 \<Rightarrow> bytes" where
  "packUint256 x = be_bytes 32 (unat x)"

definition packAddress :: "address \<Rightarrow> bytes" where
  "packAddress a = be_bytes 20 (unat a)"

definition packUint256Array :: "uint256 list \<Rightarrow> bytes" where
  "packUint256Array xs = concat (map packUint256 xs)"

definition packString :: "string \<Rightarrow> bytes" where
  "packString str = map (\<lambda>c. of_nat (of_char c)) str"

subsection \<open>Verifier\<close>

text \<open>
  The contract \<open>Verifier\<close> does not compile as it is written: \<open>verifyProof\<close> calls
  \<open>_verifyproofWithSystem\<close>, a name the contract does not declare (the function it
  defines is \<open>_verifyProofWithSystem\<close>); \<open>setOperator\<close> carries the modifier
  \<open>validAddress\<close>, which is declared nowhere; and \<open>verifyBatchProofs\<close> assigns to
  \<open>verificationId\<close> and reads \<open>proofId\<close>, which it does not declare. A contract that
  does not compile cannot be deployed, so none of its functions has a behaviour to
  model. The verifier contract that runs is \<open>ZKCreditVerifier\<close>.
\<close>

subsection \<open>ZKCreditVerifier\<close>

datatype VerificationLevel = Basic | Enhanced | Premium

text \<open>The struct \<open>VerificationResult\<close> of this contract.\<close>

record IdentityResult =
  zk_isValid :: bool
  zk_verificationLevel :: uint8
  zk_timestamp :: uint256
  zk_verifier :: address

record UserCreditInfo =
  creditScoreTier :: uint8
  verifiedIncomeMin :: uint256
  verifiedIncomeMax :: uint256
  verificationLevel :: VerificationLevel
  lastUpdated :: uint256

record ZKCreditVerifier_state =
  zk_verificationKeys :: "string \<Rightarrow> uint256 list"
  verifiedIdentities :: "bytes32 \<Rightarrow> IdentityResult"
  userCreditInfo :: "address \<Rightarrow> UserCreditInfo"

text \<open>The entries of the mappings before anything is written: every field zero.\<close>

definition emptyIdentityResult :: IdentityResult where
  "emptyIdentityResult =
     \<lparr>zk_isValid = False, zk_verificationLevel = 0, zk_timestamp = 0, zk_verifier = 0\<rparr>"

definition emptyUserCreditInfo :: UserCreditInfo where
  "emptyUserCreditInfo =
     \<lparr>creditScoreTier = 0, verifiedIncomeMin = 0, verifiedIncomeMax = 0,
      verificationLevel = Basic, lastUpdated = 0\<rparr>"

definition initialState :: ZKCreditVerifier_state where
  "initialState =
     \<lparr>zk_verificationKeys = (\<lambda>k. []),
      verifiedIdentities = (\<lambda>k. emptyIdentityResult),
      userCreditInfo = (\<lambda>k. emptyUserCreditInfo)\<rparr>"

definition validateZKProof ::
  "(bytes \<Rightarrow> bytes32) \<Rightarrow> uint256 list \<Rightarrow> uint256 list \<Rightarrow> string \<Rightarrow> bool" where
  "validateZKProof keccak256 proof publicSignals verificationKeyName =
     (let proofHash =
            keccak256 (packUint256Array proof @ packUint256Array publicSignals
              @ packString verificationKeyName) mod 100
      in proofHash < 90)"

definition ZKCreditVerifier_verifyProof ::
  "(bytes \<Rightarrow> bytes32) \<Rightarrow> env \<Rightarrow> ZKCreditVerifier_state \<Rightarrow> bytes32 \<Rightarrow> uint256 list
     \<Rightarrow> uint256 list \<Rightarrow> string \<Rightarrow> uint8 \<Rightarrow> evm_error + (bool \<times> ZKCreditVerifier_state)" where
  "ZKCreditVerifier_verifyProof keccak256 e s pid proof publicSignals verificationKeyName
       level =
     require (0 < length proof) ''Invalid proof''
    (require (0 < length publicSignals) ''Invalid public signals''
    (require (0 < length verificationKeyName) ''Invalid verification key name''
    (require (level \<le> 2) ''Invalid verification level''
    (let valid = validateZKProof keccak256 proof publicSignals verificationKeyName in
     if valid then
       (let result = \<lparr>zk_isValid = True, zk_verificationLevel = level,
              zk_timestamp = blockTimestamp e, zk_verifier = msgSender e\<rparr>
        in Inr (valid, s\<lparr>verifiedIdentities := (verifiedIdentities s)(pid := result)\<rparr>))
     else Inr (valid, s)))))"

definition updateCreditAssessment ::
  "env \<Rightarrow> ZKCreditVerifier_state \<Rightarrow> address \<Rightarrow> uint8 \<Rightarrow> uint256 \<Rightarrow> uint256
     \<Rightarrow> VerificationLevel \<Rightarrow> evm_error + ZKCreditVerifier_state" where
  "updateCreditAssessment e s user tier incomeMin incomeMax level =
     require (user \<noteq> 0) ''Invalid user address''
    (require (1 \<le> tier \<and> tier \<le> 5) ''Invalid credit score tier''
    (require (incomeMin \<le> incomeMax) ''Invalid income range''
    (Inr (s\<lparr>userCreditInfo := (userCreditInfo s)
            (user := \<lparr>creditScoreTier = tier, verifiedIncomeMin = incomeMin,
                       verifiedIncomeMax = incomeMax, verificationLevel = level,
                       lastUpdated = blockTimestamp e\<rparr>)\<rparr>))))"

text \<open>
  \<open>getCreditDecision\<close>. The types of its arithmetic follow the language: \<open>6 - creditScore\<close>
  and \<open>creditScore * 200\<close> are computed in \<open>uint8\<close> (both literals fit the type of
  \<open>creditScore\<close>), the product with the literal 50000 and the sum with the literal 300 in
  \<open>uint16\<close>, the smallest type that holds the literal; each is checked in its type before
  the result is widened to \<open>uint256\<close>. The interest rate is computed only when the loan
  is approved.
\<close>

definition getCreditDecision ::
  "ZKCreditVerifier_state \<Rightarrow> address \<Rightarrow> uint256 \<Rightarrow> evm_error + (bool \<times> uint256 \<times> uint256)" where
  "getCreditDecision s user requestedAmount =
     (let userInfo = userCreditInfo s user in
      require (0 < lastUpdated userInfo) ''No credit information available''
     (let creditScore = creditScoreTier userInfo in
      if verifiedIncomeMax userInfo < verifiedIncomeMin userInfo then Inl (Panic 17)
      else let incomeRange = verifiedIncomeMax userInfo - verifiedIncomeMin userInfo in
        if 6 < creditScore then Inl (Panic 17)
        else if 65535 < 50000 * unat (6 - creditScore) then Inl (Panic 17)
        else let approvalThreshold = (of_nat (50000 * unat (6 - creditScore)) :: uint256);
                 hasSufficientIncome = (1000 < incomeRange);
                 isApproved = (creditScore \<le> 3 \<and> hasSufficientIncome)
             in if isApproved then
                  (if 255 < unat creditScore * 200 then Inl (Panic 17)
                   else if 65535 < 300 + unat creditScore * 200 then Inl (Panic 17)
                   else Inr (True, approvalThreshold,
                             of_nat (300 + unat creditScore * 200)))
                else Inr (False, 0, 0)))"

definition getUserCreditInfo ::
  "ZKCreditVerifier_state \<Rightarrow> address \<Rightarrow> evm_error + UserCreditInfo" where
  "getUserCreditInfo s user =
     (let userInfo = userCreditInfo s user in
      require (0 < lastUpdated userInfo) ''No credit information available''
        (Inr userInfo))"

text \<open>
  A sequence of \<open>updateCreditAssessment\<close> transactions: each call has its own sender and
  block time, and a call that reverts leaves the storage as it was.
\<close>

record update_call =
  callEnv :: env
  callUser :: address
  callTier :: uint8
  callIncomeMin :: uint256
  callIncomeMax :: uint256
  callLevel :: VerificationLevel

fun execUpdates :: "ZKCreditVerifier_state \<Rightarrow> update_call list \<Rightarrow> ZKCreditVerifier_state" where
  "execUpdates s [] = s"
| "execUpdates s (c # cs) =
     (case updateCreditAssessment (callEnv c) s (callUser c) (callTier c) (callIncomeMin c)
             (callIncomeMax c) (callLevel c) of
        Inl err \<Rightarrow> execUpdates s cs
      | Inr s' \<Rightarrow> execUpdates s' cs)"

section \<open>The proof service\<close>















section \<open>Predicates and concrete instances used by the theorems\<close>

text \<open>The eligibility checks of \<open>CreditHistoryVerifier\<close>, as plain comparisons.\<close>

definition eligibilityChecks :: "credit_inputs \<Rightarrow> bool" where
  "eligibilityChecks i =
     (creditScoreMin i \<le> creditScore i \<and> creditScore i \<le> creditScoreMax i
      \<and> minHistoryLength i \<le> historyLength i \<and> defaultCount i = 0
      \<and> recentLatePayments i \<le> 3 \<and> creditScore i \<le> 850)"

text \<open>A subject record with a tier from 1 to 5 and an ordered income range.\<close>

definition validRecord :: "UserCreditInfo \<Rightarrow> bool" where
  "validRecord r =
     (1 \<le> creditScoreTier r \<and> creditScoreTier r \<le> 5
      \<and> verifiedIncomeMin r \<le> verifiedIncomeMax r)"

text \<open>The arguments that pass the three \<open>require\<close>s of \<open>updateCreditAssessment\<close>.\<close>

definition accepted :: "update_call \<Rightarrow> bool" where
  "accepted c =
     (callUser c \<noteq> 0 \<and> 1 \<le> callTier c \<and> callTier c \<le> 5
      \<and> callIncomeMin c \<le> callIncomeMax c)"

text \<open>
  A small polynomial hash, standing in for \<open>keccak256\<close> wherever a contract call is
  evaluated on concrete inputs. The general theorems hold for every hash function.
\<close>

definition demoKeccak :: "bytes \<Rightarrow> bytes32" where
  "demoKeccak bs = of_nat (foldl (\<lambda>h b. (31 * h + unat b + 1) mod 1000003) 7 bs)"

definition demoEnv :: env where
  "demoEnv = \<lparr>msgSender = 1, blockTimestamp = 1000, gasLeft = 50000\<rparr>"




text \<open>Two calls of \<open>updateCreditAssessment\<close> for the subject 7: one accepted, one refused.\<close>

definition demoUpdate :: update_call where
  "demoUpdate =
     \<lparr>callEnv = demoEnv, callUser = 7, callTier = 2, callIncomeMin = 15000,
      callIncomeMax = 80000, callLevel = Enhanced\<rparr>"

definition demoBadUpdate :: update_call where
  "demoBadUpdate =
     \<lparr>callEnv = demoEnv, callUser = 7, callTier = 9, callIncomeMin = 0,
      callIncomeMax = 1, callLevel = Basic\<rparr>"


section \<open>Evaluation lemmas\<close>

lemmas comparator_defs = GreaterEqThan_def LessEqThan_def LessThan_def IsZero_def

lemmas field_eval = p_def fadd_def fsub_def fmul_def

lemmas pack_defs =
  packUint256_def packAddress_def packUint256Array_def packString_def be_bytes.simps

section \<open>The circuits\<close>

subsection \<open>IncomeVerifier\<close>

lemma IncomeVerifier_commitment: "IncomeVerifier i = Inr c \<Longrightarrow> c = actualIncome i"
  by (auto simp: IncomeVerifier_def Let_def split: if_splits)

lemma income_signals_contain_income:
  "incomePublicSignals i = Inr sigs \<Longrightarrow> actualIncome i \<in> set sigs"
  by (auto simp: incomePublicSignals_def dest: IncomeVerifier_commitment split: sum.splits)

text \<open>
  Claim C1, on the code: for the bounds 15000 and 80000 and the private income 45000 a
  witness exists, and the public signal vector is the two bounds followed by the
  commitment, which is the private income 45000 itself. The claim that no public signal
  equals the private income fails here.
\<close>

theorem income_scenario_public_signals:
  "incomePublicSignals \<lparr>minIncome = 15000, maxIncome = 80000, actualIncome = 45000\<rparr>
     = Inr [15000, 80000, 45000]"
  by (simp add: incomePublicSignals_def IncomeVerifier_def comparator_defs)

subsection \<open>CreditHistoryVerifier\<close>

lemma MultiDivision_refused: "MultiDivision dividend divisor ratio = Inl NonQuadraticConstraint"
  by (simp add: MultiDivision_def constrainedAssign_def)

text \<open>No input of \<open>CreditHistoryVerifier\<close> has a witness.\<close>

lemma CreditHistoryVerifier_no_witness: "CreditHistoryVerifier i \<noteq> Inr out"
  by (simp add: CreditHistoryVerifier_def MultiDivision_refused Let_def)

text \<open>
  Claim C5, on the code: an input that passes every eligibility check (score 850 within
  700 and 850, 24 months of history for 12 required, no default, one late payment) has
  no witness, so the template gives no \<open>isEligible\<close> at all: it is refused at the
  quotient of two signals in \<open>MultiDivision\<close>.
\<close>

theorem eligible_input_has_no_witness:
  "eligibilityChecks
     \<lparr>creditScoreMin = 700, creditScoreMax = 850, minHistoryLength = 12, creditScore = 850,
      historyLength = 24, defaultCount = 0, recentLatePayments = 1\<rparr>
   \<and> CreditHistoryVerifier
     \<lparr>creditScoreMin = 700, creditScoreMax = 850, minHistoryLength = 12, creditScore = 850,
      historyLength = 24, defaultCount = 0, recentLatePayments = 1\<rparr>
   = Inl NonQuadraticConstraint"
  by (simp add: eligibilityChecks_def CreditHistoryVerifier_def MultiDivision_refused
      comparator_defs)

text \<open>
  Claim C6, on the code: for the credit score 700 (with bounds 700 and 850) the
  template has no witness and gives no \<open>creditRating\<close>, where the claim has the rating
  82: the assignment \<open>remainder <== scaledDividend / divisor\<close> of \<open>MultiDivision\<close> is a
  quotient of two signals.
\<close>

theorem credit_score_700_has_no_rating:
  "CreditHistoryVerifier
     \<lparr>creditScoreMin = 700, creditScoreMax = 850, minHistoryLength = 12, creditScore = 700,
      historyLength = 24, defaultCount = 0, recentLatePayments = 1\<rparr>
   = Inl NonQuadraticConstraint"
  by (simp add: CreditHistoryVerifier_def MultiDivision_refused comparator_defs)

subsection \<open>MerkleTreeVerifier and BatchMerkleVerifier\<close>

lemma IsBinary_out: "IsBinary x = Inr out \<Longrightarrow> out = 0"
  by (auto simp: IsBinary_def Let_def split: if_splits)

lemma binaryChecks_forces_zero:
  "binaryChecks v ixs = Inr u \<Longrightarrow> ixs \<noteq> [] \<Longrightarrow> v = 0"
  by (cases ixs) (auto dest: IsBinary_out split: sum.splits if_splits)

text \<open>With at least one level, no witness of \<open>MerkleTreeVerifier\<close> has the output 1.\<close>

lemma MerkleTreeVerifier_never_valid:
  "0 < levels \<Longrightarrow> MerkleTreeVerifier poseidon levels root ixs leaf els \<noteq> Inr 1"
  by (auto simp: MerkleTreeVerifier_def Let_def dest!: binaryChecks_forces_zero
      split: if_splits sum.splits)

text \<open>
  Claim C2, on the code: in the tree of depth 1 with the leaves 5 and 9, the honest path
  of the left leaf (sibling 9, direction 0) against the root \<open>poseidon 5 9\<close> has no
  witness at all, for any hash function: \<open>isValid\<close> is computed as 1, and the
  constraint \<open>binaryCheck.out === isValid\<close> asks it to equal the check's output 0.
\<close>

theorem merkle_honest_path_has_no_witness:
  "MerkleTreeVerifier poseidon 1 (poseidon 5 9) [0] 5 [9] = Inl ConstraintFailed"
  by (simp add: MerkleTreeVerifier_def IsEqual_def IsBinary_def field_eval)

text \<open>
  Claim C4, on the code: a batch of three proofs of depth 1, two honest and one with a
  corrupted sibling (7 for 6), has no witness, so no output \<open>allValid = 0\<close>; and a batch
  of three proofs of depth 0 (leaf against root) whose first two are valid and whose
  third is not has no witness either, since \<open>allValidCheck\<close> compares \<open>allValid\<close> with
  the validity of the first proof alone.
\<close>

theorem batch_with_one_invalid_proof_has_no_witness:
  "BatchMerkleVerifier poseidon 3 1 [poseidon 1 2, poseidon 3 4, poseidon 5 6] [1, 3, 5]
     [[2], [4], [7]] [[0], [0], [0]] = Inl ConstraintFailed
   \<and> BatchMerkleVerifier poseidon 3 0 [5, 6, 8] [5, 6, 7] [[], [], []] [[], [], []]
     = Inl ConstraintFailed"
  by (simp add: BatchMerkleVerifier_def MerkleTreeVerifier_def IsEqual_def IsBinary_def
      field_eval)

subsection \<open>CollateralVerifier and the proof service\<close>




section \<open>The contracts\<close>

subsection \<open>ZKCreditVerifier\<close>

text \<open>
  Counterexample to claim C8: a well-formed proof whose check fails. The call returns
  \<open>false\<close> and the storage is what it was: no record is written for the proof id 42,
  whose entry still has the time and the verifier zero.
\<close>

theorem failed_check_leaves_storage_unchanged:
  "validateZKProof demoKeccak [11] [7] ''k'' = False
   \<and> ZKCreditVerifier_verifyProof demoKeccak demoEnv initialState 42 [11] [7] ''k'' 0
     = Inr (False, initialState)
   \<and> verifiedIdentities initialState 42 = emptyIdentityResult"
  by (simp add: ZKCreditVerifier_verifyProof_def validateZKProof_def require_def demoKeccak_def
      pack_defs initialState_def Let_def cong: let_weak_cong)

text \<open>
  Claim C8, amended: \<open>verifyProof\<close> returns the result of the check; when the check
  fails it stores nothing and the storage is unchanged, and a record, always with
  \<open>isValid = true\<close>, is written only when the check succeeds.
\<close>

theorem verifyProof_records_only_success:
  assumes "ZKCreditVerifier_verifyProof keccak256 e s pid proof publicSignals name level
             = Inr (valid, s')"
  shows "valid = validateZKProof keccak256 proof publicSignals name
     \<and> s' = (if valid
            then s\<lparr>verifiedIdentities := (verifiedIdentities s)
                    (pid := \<lparr>zk_isValid = True, zk_verificationLevel = level,
                             zk_timestamp = blockTimestamp e, zk_verifier = msgSender e\<rparr>)\<rparr>
            else s)"
  using assms
  by (auto simp: ZKCreditVerifier_verifyProof_def require_def Let_def split: if_splits)

lemma demo_valid_proof:
  "ZKCreditVerifier_verifyProof demoKeccak demoEnv initialState 42 [1] [7] ''k'' 2
     = Inr (True, initialState\<lparr>verifiedIdentities := (verifiedIdentities initialState)
              (42 := \<lparr>zk_isValid = True, zk_verificationLevel = 2,
                       zk_timestamp = 1000, zk_verifier = 1\<rparr>)\<rparr>)"
  by (simp add: ZKCreditVerifier_verifyProof_def validateZKProof_def require_def demoKeccak_def
      demoEnv_def pack_defs initialState_def Let_def cong: let_weak_cong)

theorem verifyProof_records_only_success_witness:
  "True = validateZKProof demoKeccak [1] [7] ''k''
   \<and> verifiedIdentities
       (initialState\<lparr>verifiedIdentities := (verifiedIdentities initialState)
              (42 := \<lparr>zk_isValid = True, zk_verificationLevel = 2,
                       zk_timestamp = 1000, zk_verifier = 1\<rparr>)\<rparr>) 42
     = \<lparr>zk_isValid = True, zk_verificationLevel = 2, zk_timestamp = blockTimestamp demoEnv,
        zk_verifier = msgSender demoEnv\<rparr>"
  using verifyProof_records_only_success [OF demo_valid_proof]
  by (simp add: demoEnv_def)





lemma update_overwrites:
  "updateCreditAssessment e s user tier mn mx lvl = Inr s' \<Longrightarrow>
     s' = s\<lparr>userCreditInfo := (userCreditInfo s)
             (user := \<lparr>creditScoreTier = tier, verifiedIncomeMin = mn,
                        verifiedIncomeMax = mx, verificationLevel = lvl,
                        lastUpdated = blockTimestamp e\<rparr>)\<rparr>
     \<and> user \<noteq> 0 \<and> 1 \<le> tier \<and> tier \<le> 5 \<and> mn \<le> mx"
  by (auto simp: updateCreditAssessment_def require_def split: if_splits)

lemma accepted_updates:
  "accepted c \<Longrightarrow>
     \<exists>s'. updateCreditAssessment (callEnv c) s (callUser c) (callTier c) (callIncomeMin c)
            (callIncomeMax c) (callLevel c) = Inr s'
          \<and> validRecord (userCreditInfo s' (callUser c))"
  by (simp add: accepted_def updateCreditAssessment_def require_def validRecord_def)

lemma execUpdates_preserves:
  "userCreditInfo s u = emptyUserCreditInfo \<or> validRecord (userCreditInfo s u) \<Longrightarrow>
   userCreditInfo (execUpdates s calls) u = emptyUserCreditInfo
     \<or> validRecord (userCreditInfo (execUpdates s calls) u)"
proof (induction calls arbitrary: s)
  case Nil
  then show ?case by simp
next
  case (Cons c cs)
  show ?case
  proof (cases "updateCreditAssessment (callEnv c) s (callUser c) (callTier c)
                  (callIncomeMin c) (callIncomeMax c) (callLevel c)")
    case (Inl err)
    then show ?thesis using Cons by simp
  next
    case (Inr s1)
    from update_overwrites [OF Inr] Cons.prems
    have "userCreditInfo s1 u = emptyUserCreditInfo \<or> validRecord (userCreditInfo s1 u)"
      by (auto simp: validRecord_def)
    from Cons.IH [OF this] show ?thesis using Inr by simp
  qed
qed

lemma execUpdates_valid_kept:
  "validRecord (userCreditInfo s u) \<Longrightarrow> validRecord (userCreditInfo (execUpdates s calls) u)"
proof (induction calls arbitrary: s)
  case Nil
  then show ?case by simp
next
  case (Cons c cs)
  show ?case
  proof (cases "updateCreditAssessment (callEnv c) s (callUser c) (callTier c)
                  (callIncomeMin c) (callIncomeMax c) (callLevel c)")
    case (Inl err)
    then show ?thesis using Cons by simp
  next
    case (Inr s1)
    from update_overwrites [OF Inr] Cons.prems
    have "validRecord (userCreditInfo s1 u)" by (auto simp: validRecord_def)
    from Cons.IH [OF this] show ?thesis using Inr by simp
  qed
qed

lemma execUpdates_updated_valid:
  "c \<in> set calls \<Longrightarrow> accepted c \<Longrightarrow>
     validRecord (userCreditInfo (execUpdates s calls) (callUser c))"
proof (induction calls arbitrary: s)
  case Nil
  then show ?case by simp
next
  case (Cons d ds)
  show ?case
  proof (cases "c = d")
    case True
    from accepted_updates [OF Cons.prems(2), of s] obtain s1 where
      s1: "updateCreditAssessment (callEnv c) s (callUser c) (callTier c) (callIncomeMin c)
             (callIncomeMax c) (callLevel c) = Inr s1"
      and v: "validRecord (userCreditInfo s1 (callUser c))" by blast
    from execUpdates_valid_kept [OF v, of ds] show ?thesis using s1 True by simp
  next
    case False
    with Cons.prems have "c \<in> set ds" by simp
    from Cons.IH [OF this Cons.prems(2)] show ?thesis
      by (cases "updateCreditAssessment (callEnv d) s (callUser d) (callTier d)
                   (callIncomeMin d) (callIncomeMax d) (callLevel d)") simp_all
  qed
qed

lemma never_updated:
  "user \<notin> callUser ` set calls \<Longrightarrow>
     userCreditInfo (execUpdates s calls) user = userCreditInfo s user"
proof (induction calls arbitrary: s)
  case Nil
  then show ?case by simp
next
  case (Cons c cs)
  then have ne: "callUser c \<noteq> user" and rest: "user \<notin> callUser ` set cs" by auto
  show ?case
  proof (cases "updateCreditAssessment (callEnv c) s (callUser c) (callTier c)
                  (callIncomeMin c) (callIncomeMax c) (callLevel c)")
    case (Inl err)
    then show ?thesis using Cons.IH [OF rest] by simp
  next
    case (Inr s1)
    from update_overwrites [OF Inr] ne
    have "userCreditInfo s1 user = userCreditInfo s user" by auto
    then show ?thesis using Cons.IH [OF rest, of s1] Inr by simp
  qed
qed

text \<open>
  Claim C9: after every sequence of \<open>updateCreditAssessment\<close> calls on the fresh
  contract, the entry of every address is either the untouched all-zero entry or a
  record with a tier from 1 to 5 and \<open>verifiedIncomeMin \<le> verifiedIncomeMax\<close>, and the
  subject of every accepted call of the sequence has such a record; a call that
  succeeds replaces all five fields of its subject by its arguments and the block time
  and leaves every other entry as it was.
\<close>

theorem credit_state_invariant:
  "(userCreditInfo (execUpdates initialState calls) u = emptyUserCreditInfo
      \<or> validRecord (userCreditInfo (execUpdates initialState calls) u))
   \<and> (c \<in> set calls \<and> accepted c \<longrightarrow>
        validRecord (userCreditInfo (execUpdates initialState calls) (callUser c)))
   \<and> (updateCreditAssessment e s user tier mn mx lvl = Inr s' \<longrightarrow>
        userCreditInfo s' = (userCreditInfo s)
          (user := \<lparr>creditScoreTier = tier, verifiedIncomeMin = mn, verifiedIncomeMax = mx,
                     verificationLevel = lvl, lastUpdated = blockTimestamp e\<rparr>))"
proof (intro conjI impI)
  show "userCreditInfo (execUpdates initialState calls) u = emptyUserCreditInfo
      \<or> validRecord (userCreditInfo (execUpdates initialState calls) u)"
    by (rule execUpdates_preserves) (simp add: initialState_def)
next
  assume "c \<in> set calls \<and> accepted c"
  then show "validRecord (userCreditInfo (execUpdates initialState calls) (callUser c))"
    by (simp add: execUpdates_updated_valid)
next
  assume "updateCreditAssessment e s user tier mn mx lvl = Inr s'"
  from update_overwrites [OF this]
  show "userCreditInfo s' = (userCreditInfo s)
          (user := \<lparr>creditScoreTier = tier, verifiedIncomeMin = mn, verifiedIncomeMax = mx,
                     verificationLevel = lvl, lastUpdated = blockTimestamp e\<rparr>)"
    by simp
qed

lemma demo_update_succeeds:
  "updateCreditAssessment demoEnv initialState 7 2 15000 80000 Enhanced
     = Inr (initialState\<lparr>userCreditInfo := (userCreditInfo initialState)
              (7 := \<lparr>creditScoreTier = 2, verifiedIncomeMin = 15000,
                      verifiedIncomeMax = 80000, verificationLevel = Enhanced,
                      lastUpdated = 1000\<rparr>)\<rparr>)"
  by (simp add: updateCreditAssessment_def require_def demoEnv_def)

theorem credit_state_invariant_witness:
  "validRecord (userCreditInfo (execUpdates initialState [demoUpdate, demoBadUpdate]) 7)
   \<and> demoUpdate \<in> set [demoUpdate, demoBadUpdate] \<and> accepted demoUpdate
   \<and> userCreditInfo
       (initialState\<lparr>userCreditInfo := (userCreditInfo initialState)
              (7 := \<lparr>creditScoreTier = 2, verifiedIncomeMin = 15000,
                      verifiedIncomeMax = 80000, verificationLevel = Enhanced,
                      lastUpdated = 1000\<rparr>)\<rparr>) 7
     = \<lparr>creditScoreTier = 2, verifiedIncomeMin = 15000, verifiedIncomeMax = 80000,
        verificationLevel = Enhanced, lastUpdated = blockTimestamp demoEnv\<rparr>"
  using credit_state_invariant [of "[demoUpdate, demoBadUpdate]" 7 demoUpdate demoEnv
      initialState 7 2 15000 80000 Enhanced
      "initialState\<lparr>userCreditInfo := (userCreditInfo initialState)
              (7 := \<lparr>creditScoreTier = 2, verifiedIncomeMin = 15000,
                      verifiedIncomeMax = 80000, verificationLevel = Enhanced,
                      lastUpdated = 1000\<rparr>)\<rparr>"]
    demo_update_succeeds
  by (simp add: accepted_def demoUpdate_def demoEnv_def)

text \<open>
  Claim C10: for an address whose stored \<open>lastUpdated\<close> is 0, \<open>getUserCreditInfo\<close> and
  \<open>getCreditDecision\<close> both revert with "No credit information available" and return
  no default values; this is so for every address that no call of a sequence of
  \<open>updateCreditAssessment\<close> calls on the fresh contract names as its subject.
\<close>

theorem no_credit_information_reverts:
  "(lastUpdated (userCreditInfo s user) = 0 \<longrightarrow>
      getUserCreditInfo s user = Inl (Revert ''No credit information available'')
      \<and> getCreditDecision s user requestedAmount
          = Inl (Revert ''No credit information available''))
   \<and> (user \<notin> callUser ` set calls \<longrightarrow>
      getUserCreditInfo (execUpdates initialState calls) user
          = Inl (Revert ''No credit information available'')
      \<and> getCreditDecision (execUpdates initialState calls) user requestedAmount
          = Inl (Revert ''No credit information available''))"
proof -
  have a: "getUserCreditInfo t user = Inl (Revert ''No credit information available'')
    \<and> getCreditDecision t user requestedAmount
        = Inl (Revert ''No credit information available'')"
    if "lastUpdated (userCreditInfo t user) = 0" for t
    using that by (simp add: getUserCreditInfo_def getCreditDecision_def require_def)
  have b: "lastUpdated (userCreditInfo (execUpdates initialState calls) user) = 0"
    if "user \<notin> callUser ` set calls"
    using never_updated [OF that, of initialState]
    by (simp add: initialState_def emptyUserCreditInfo_def)
  show ?thesis using a b by blast
qed

theorem no_credit_information_reverts_witness:
  "lastUpdated (userCreditInfo initialState 5) = 0
   \<and> (5::address) \<notin> callUser ` set [demoUpdate, demoBadUpdate]
   \<and> getUserCreditInfo initialState 5 = Inl (Revert ''No credit information available'')
   \<and> getCreditDecision initialState 5 1000 = Inl (Revert ''No credit information available'')
   \<and> getUserCreditInfo (execUpdates initialState [demoUpdate, demoBadUpdate]) 5
       = Inl (Revert ''No credit information available'')
   \<and> getCreditDecision (execUpdates initialState [demoUpdate, demoBadUpdate]) 5 1000
       = Inl (Revert ''No credit information available'')"
  using no_credit_information_reverts [of initialState 5 1000 "[demoUpdate, demoBadUpdate]"]
  by (simp add: initialState_def emptyUserCreditInfo_def demoUpdate_def demoBadUpdate_def)

end
